theory Spec2Isabelle
  imports Complex_Main "HOL-Library.Sublist"
begin

section \<open>The page state of the number-plate client (script.js)\<close>

text \<open>
  The script keeps two globals (\<open>cameraStream\<close>, \<open>detectionHistory\<close>) and otherwise
  reads and writes elements of the page and the \<open>anprHistory\<close> entry of localStorage.
  The model is one record holding exactly those places, and every handler of the script
  is a function from the record to the record. What the browser supplies while a handler
  runs (the outcome of \<open>fetch\<close>, the clock, the captured frame) is an argument.

  Text is held as the bytes of its UTF-8 encoding, so the pictographs that start several
  messages of the script are written out as their bytes. Equality, emptiness and
  \<open>includes\<close> on well-formed text are the same on this encoding as on the script's own.
\<close>

type_synonym blob = string
type_synonym stream = nat

text \<open>
  The payload of \<open>/upload\<close> is read at the type the server gives it,
  \<open>{ number_plate: string, confidence: number }\<close>; a field that is missing (or
  \<open>null\<close>) is \<open>None\<close>. A body that parses to something of another shape is
  outside the model. A number is a rational: both zeros of the script are \<open>0\<close>.
\<close>

datatype payload = Payload (number_plate: "string option") (confidence: "rat option")

text \<open>
  \<open>fetch\<close> rejects (\<open>NetworkError\<close>) or resolves to a response with its \<open>ok\<close> flag and
  its body; the body is \<open>None\<close> when \<open>res.json()\<close> rejects.
\<close>

datatype fetch_result = NetworkError | Response (ok: bool) (json: "payload option")

record env =
  fetched :: fetch_result
  elapsed :: int
  toLocaleString :: string
  getTime :: string
  toBlob :: "blob option"

text \<open>
  \<open>elapsed\<close> is the value of \<open>Math.round(endTime - startTime)\<close>, \<open>toLocaleString\<close> and
  \<open>getTime\<close> are the texts of \<open>new Date().toLocaleString()\<close> and
  \<open>new Date().getTime()\<close>, and \<open>toBlob\<close> is the frame the canvas yields (\<open>None\<close>
  when the canvas steps fail before the request is made).
\<close>

record history_item =
  plate :: string
  item_confidence :: "rat option"
  processTime :: int
  timestamp :: string

datatype elem = DetectBtn | DownloadBtn | StartCamera | CaptureBtn | StopCamera | Elem nat

record button =
  innerHTML :: string
  disabled :: bool

text \<open>
  The two result cells that hold a formatted number keep it symbolically:
  \<open>Percent c\<close> is the text \<open>(c * 100).toFixed(2)\<close> followed by \<open>%\<close>, and
  \<open>Millis t\<close> is the text of the number \<open>t\<close>.
\<close>

datatype confidence_text = ConfidenceMarkup string | NotAvailable | Percent rat
datatype time_text = TimeMarkup string | Millis int
datatype history_view = ListMarkup string | NoHistory | Items "(string \<times> string) list"
datatype request = Upload blob

record download =
  download_name :: string
  download_content :: string

record ui =
  files :: "blob list"
  preview_src :: string
  preview_display :: string
  plateNumber :: string
  detected :: bool
  confidence_cell :: confidence_text
  processingTime_cell :: time_text
  resultDetails_display :: string
  buttons :: "elem \<Rightarrow> button"
  cameraStream :: "stream option"
  webcam_srcObject :: "stream option"
  cameraOverlay_display :: string
  cameraOverlay_text :: string
  detectionHistory :: "history_item list"
  anprHistory :: "history_item list option"
  historyList :: history_view
  notifications :: "(string \<times> string) list"
  requests :: "request list"
  downloads :: "download list"

section \<open>Text constants\<close>

definition warning_sign :: string where
  "warning_sign = [CHR 0xE2, CHR 0x9A, CHR 0xA0, CHR 0xEF, CHR 0xB8, CHR 0x8F]"

definition check_mark :: string where
  "check_mark = [CHR 0xE2, CHR 0x9C, CHR 0x85]"

definition cross_mark :: string where
  "cross_mark = [CHR 0xE2, CHR 0x9D, CHR 0x8C]"

definition camera_sign :: string where
  "camera_sign = [CHR 0xF0, CHR 0x9F, CHR 0x93, CHR 0xB7]"

definition inbox_sign :: string where
  "inbox_sign = [CHR 0xF0, CHR 0x9F, CHR 0x93, CHR 0xA5]"

definition bin_sign :: string where
  "bin_sign = [CHR 0xF0, CHR 0x9F, CHR 0x97, CHR 0x91, CHR 0xEF, CHR 0xB8, CHR 0x8F]"

definition loading_span :: string where
  "loading_span = ''<span class='' @ [CHR 0x22] @ ''loading'' @ [CHR 0x22] @ ''></span>''"

definition no_plate_detected :: string where
  "no_plate_detected = ''No plate detected''"

definition no_plate_message :: string where
  "no_plate_message = cross_mark @ '' No plate detected''"

definition processing_error_message :: string where
  "processing_error_message = warning_sign @ '' Processing Error!''"

definition capture_failed_message :: string where
  "capture_failed_message = warning_sign @ '' Capture failed!''"

definition waiting_message :: string where
  "waiting_message = ''Waiting for detection...''"

section \<open>Helpers of the script's language\<close>

text \<open>\<open>text.includes(sub)\<close>: \<open>sub\<close> occurs in \<open>text\<close> as a contiguous run.\<close>

fun text_includes :: "string \<Rightarrow> string \<Rightarrow> bool" where
  "text_includes [] sub = (sub = [])"
| "text_includes (c # cs) sub = (prefix sub (c # cs) \<or> text_includes cs sub)"

text \<open>Truthiness of a string or number that may be missing.\<close>

definition truthy_string :: "string option \<Rightarrow> bool" where
  "truthy_string v = (case v of None \<Rightarrow> False | Some t \<Rightarrow> t \<noteq> [])"

definition truthy_number :: "rat option \<Rightarrow> bool" where
  "truthy_number v = (case v of None \<Rightarrow> False | Some c \<Rightarrow> c \<noteq> 0)"

section \<open>Notifications and history\<close>

text \<open>
  \<open>showNotification\<close> appends a notification element; the timer that removes it four
  seconds later is not part of the model, so \<open>notifications\<close> is the log of what was shown.
\<close>

definition showNotification :: "string \<Rightarrow> string \<Rightarrow> ui \<Rightarrow> ui" where
  "showNotification message type s = s\<lparr>notifications := notifications s @ [(message, type)]\<rparr>"

definition loadDetectionHistory :: "ui \<Rightarrow> ui" where
  "loadDetectionHistory s =
     (if length (detectionHistory s) = 0 then s\<lparr>historyList := NoHistory\<rparr>
      else s\<lparr>historyList := Items (map (\<lambda>item. (plate item, timestamp item)) (detectionHistory s))\<rparr>)"

text \<open>
  \<open>unshift\<close> puts the new item first, \<open>slice(0, 10)\<close> keeps the first ten, and the list
  is stored under \<open>anprHistory\<close> (the stored text is kept as the list it encodes;
  \<open>setItem\<close> is taken to succeed).
\<close>

definition addToHistory :: "string \<Rightarrow> rat option \<Rightarrow> int \<Rightarrow> string \<Rightarrow> ui \<Rightarrow> ui" where
  "addToHistory p c t now s =
     (let historyItem = \<lparr>plate = p, item_confidence = c, processTime = t, timestamp = now\<rparr>;
          unshifted = historyItem # detectionHistory s;
          kept = (if length unshifted > 10 then take 10 unshifted else unshifted)
      in loadDetectionHistory (s\<lparr>detectionHistory := kept, anprHistory := Some kept\<rparr>))"

text \<open>
  The script's first lines: \<open>cameraStream = null\<close> and
  \<open>detectionHistory = JSON.parse(localStorage.getItem('anprHistory')) || []\<close>.
\<close>

definition load_script :: "ui \<Rightarrow> ui" where
  "load_script s =
     s\<lparr>cameraStream := None,
       detectionHistory := (case anprHistory s of None \<Rightarrow> [] | Some h \<Rightarrow> h)\<rparr>"

section \<open>Handlers\<close>

definition set_button :: "elem \<Rightarrow> (button \<Rightarrow> button) \<Rightarrow> ui \<Rightarrow> ui" where
  "set_button b f s = s\<lparr>buttons := (buttons s)(b := f (buttons s b))\<rparr>"

definition previewImage :: "string option \<Rightarrow> ui \<Rightarrow> ui" where
  "previewImage loaded s =
     (case files s of
        file # _ \<Rightarrow>
          (case loaded of
             None \<Rightarrow> s
           | Some result \<Rightarrow>
               set_button DetectBtn (\<lambda>b. b\<lparr>disabled := False\<rparr>)
                 (s\<lparr>preview_src := result, preview_display := ''block''\<rparr>))
      | [] \<Rightarrow> set_button DetectBtn (\<lambda>b. b\<lparr>disabled := True\<rparr>) (s\<lparr>preview_display := ''none''\<rparr>))"

subsection \<open>uploadImage\<close>

text \<open>
  \<open>btn\<close> is \<open>event.target\<close>, the element that was clicked. The handler is cut where the
  script is: the loading state before the \<open>try\<close>, the \<open>try\<close> block (whose every
  throw ends in \<open>upload_catch\<close>), the branch on the payload, and the \<open>finally\<close> block.
\<close>

definition upload_loading :: "elem \<Rightarrow> ui \<Rightarrow> ui" where
  "upload_loading btn s =
     (set_button btn (\<lambda>b. b\<lparr>innerHTML := loading_span @ ''Processing...'', disabled := True\<rparr>) s)
       \<lparr>plateNumber := ''Detecting...'', detected := False, resultDetails_display := ''none''\<rparr>"

definition upload_catch :: "ui \<Rightarrow> ui" where
  "upload_catch s =
     showNotification (warning_sign @ '' Failed to process image. Please try again.'') ''error''
       (set_button DownloadBtn (\<lambda>b. b\<lparr>disabled := True\<rparr>)
          (s\<lparr>plateNumber := processing_error_message, detected := False,
             resultDetails_display := ''none''\<rparr>))"

definition upload_data :: "payload \<Rightarrow> env \<Rightarrow> ui \<Rightarrow> ui" where
  "upload_data data e s =
     (if truthy_string (number_plate data) \<and> number_plate data \<noteq> Some no_plate_detected then
        showNotification (check_mark @ '' Number plate detected successfully!'') ''success''
          (addToHistory (the (number_plate data)) (confidence data) (elapsed e) (toLocaleString e)
             (set_button DownloadBtn (\<lambda>b. b\<lparr>disabled := False\<rparr>)
                (s\<lparr>plateNumber := the (number_plate data), detected := True,
                   confidence_cell :=
                     (if truthy_number (confidence data) then Percent (the (confidence data))
                      else NotAvailable),
                   processingTime_cell := Millis (elapsed e),
                   resultDetails_display := ''block''\<rparr>)))
      else
        showNotification (cross_mark @ '' No number plate found in the image'') ''error''
          (set_button DownloadBtn (\<lambda>b. b\<lparr>disabled := True\<rparr>)
             (s\<lparr>plateNumber := no_plate_message, detected := False,
                resultDetails_display := ''none''\<rparr>)))"

definition upload_try :: "blob \<Rightarrow> env \<Rightarrow> ui \<Rightarrow> ui" where
  "upload_try file0 e s =
     (let sent = s\<lparr>requests := requests s @ [Upload file0]\<rparr>
      in case fetched e of
           NetworkError \<Rightarrow> upload_catch sent
         | Response res_ok body \<Rightarrow>
             if \<not> res_ok then upload_catch sent
             else (case body of
                     None \<Rightarrow> upload_catch sent
                   | Some data \<Rightarrow> upload_data data e sent))"

definition uploadImage :: "elem \<Rightarrow> env \<Rightarrow> ui \<Rightarrow> ui" where
  "uploadImage btn e s =
     (case files s of
        [] \<Rightarrow> showNotification (warning_sign @ '' Please choose an image first!'') ''warning'' s
      | file0 # _ \<Rightarrow>
          (let originalText = innerHTML (buttons s btn);
               settled = upload_try file0 e (upload_loading btn s)
           in set_button btn (\<lambda>b. b\<lparr>innerHTML := originalText, disabled := False\<rparr>) settled))"

subsection \<open>The camera\<close>

text \<open>\<open>granted\<close> is the stream \<open>getUserMedia\<close> resolves to, \<open>None\<close> when it rejects.\<close>

definition initializeWebcam :: "stream option \<Rightarrow> ui \<Rightarrow> ui" where
  "initializeWebcam granted s =
     (let starting = set_button StartCamera
                       (\<lambda>b. b\<lparr>innerHTML := loading_span @ ''Starting...'', disabled := True\<rparr>) s;
          settled =
            (case granted of
               Some stream0 \<Rightarrow>
                 showNotification (camera_sign @ '' Camera activated successfully!'') ''success''
                   (set_button StopCamera (\<lambda>b. b\<lparr>disabled := False\<rparr>)
                      (set_button CaptureBtn (\<lambda>b. b\<lparr>disabled := False\<rparr>)
                         (starting\<lparr>webcam_srcObject := Some stream0, cameraStream := Some stream0,
                                 cameraOverlay_display := ''none''\<rparr>)))
             | None \<Rightarrow>
                 showNotification (cross_mark @ '' Camera access denied or not available'') ''error''
                   (starting\<lparr>cameraOverlay_text := cross_mark @ '' Camera Error''\<rparr>))
      in set_button StartCamera
           (\<lambda>b. b\<lparr>innerHTML := camera_sign @ '' Start Camera'', disabled := False\<rparr>) settled)"

definition stopWebcam :: "ui \<Rightarrow> ui" where
  "stopWebcam s =
     (case cameraStream s of
        None \<Rightarrow> s
      | Some _ \<Rightarrow>
          showNotification (camera_sign @ '' Camera turned off'') ''info''
            (set_button StopCamera (\<lambda>b. b\<lparr>disabled := True\<rparr>)
               (set_button CaptureBtn (\<lambda>b. b\<lparr>disabled := True\<rparr>)
                  (s\<lparr>cameraStream := None, webcam_srcObject := None,
                     cameraOverlay_display := ''flex'', cameraOverlay_text := ''Camera Off''\<rparr>))))"

subsection \<open>captureFromWebcam\<close>

text \<open>
  The canvas and the flash of the video element touch nothing the record holds. The
  \<open>try\<close> block reads the payload of whatever response arrives: it has no test of
  \<open>res.ok\<close>.
\<close>

definition capture_loading :: "ui \<Rightarrow> ui" where
  "capture_loading s =
     (set_button CaptureBtn
        (\<lambda>b. b\<lparr>innerHTML := loading_span @ ''Capturing...'', disabled := True\<rparr>) s)
       \<lparr>plateNumber := ''Processing...'', detected := False, resultDetails_display := ''none''\<rparr>"

definition capture_catch :: "ui \<Rightarrow> ui" where
  "capture_catch s =
     showNotification (warning_sign @ '' Failed to capture image'') ''error''
       (set_button DownloadBtn (\<lambda>b. b\<lparr>disabled := True\<rparr>)
          (s\<lparr>plateNumber := capture_failed_message, detected := False,
             resultDetails_display := ''none''\<rparr>))"

definition capture_data :: "payload \<Rightarrow> env \<Rightarrow> ui \<Rightarrow> ui" where
  "capture_data data e s =
     (if truthy_string (number_plate data) \<and> number_plate data \<noteq> Some no_plate_detected then
        showNotification (check_mark @ '' Number plate detected from camera!'') ''success''
          (addToHistory (the (number_plate data)) (confidence data) (elapsed e) (toLocaleString e)
             (set_button DownloadBtn (\<lambda>b. b\<lparr>disabled := False\<rparr>)
                (s\<lparr>plateNumber := the (number_plate data), detected := True,
                   confidence_cell :=
                     (if truthy_number (confidence data) then Percent (the (confidence data))
                      else NotAvailable),
                   processingTime_cell := Millis (elapsed e),
                   resultDetails_display := ''block''\<rparr>)))
      else
        showNotification (cross_mark @ '' No number plate found in the image'') ''error''
          (set_button DownloadBtn (\<lambda>b. b\<lparr>disabled := True\<rparr>)
             (s\<lparr>plateNumber := no_plate_message, detected := False,
                resultDetails_display := ''none''\<rparr>)))"

definition capture_try :: "env \<Rightarrow> ui \<Rightarrow> ui" where
  "capture_try e s =
     (case toBlob e of
        None \<Rightarrow> capture_catch s
      | Some frame \<Rightarrow>
          (let sent = s\<lparr>requests := requests s @ [Upload frame]\<rparr>
           in case fetched e of
                NetworkError \<Rightarrow> capture_catch sent
              | Response res_ok body \<Rightarrow>
                  (case body of
                     None \<Rightarrow> capture_catch sent
                   | Some data \<Rightarrow> capture_data data e sent)))"

definition captureFromWebcam :: "env \<Rightarrow> ui \<Rightarrow> ui" where
  "captureFromWebcam e s =
     (case cameraStream s of
        None \<Rightarrow> showNotification (warning_sign @ '' Please enable camera first!'') ''warning'' s
      | Some _ \<Rightarrow>
          (let originalText = innerHTML (buttons s CaptureBtn);
               settled = capture_try e (capture_loading s)
           in set_button CaptureBtn
                (\<lambda>b. b\<lparr>innerHTML := originalText, disabled := False\<rparr>) settled))"

subsection \<open>downloadResult and clearAll\<close>

definition downloadResult :: "env \<Rightarrow> ui \<Rightarrow> ui" where
  "downloadResult e s =
     (let plateText = plateNumber s
      in if plateText \<noteq> [] \<and> \<not> text_includes plateText ''Waiting''
            \<and> \<not> text_includes plateText ''No plate''
            \<and> \<not> text_includes plateText ''Detecting''
            \<and> \<not> text_includes plateText ''Error''
         then
           showNotification (inbox_sign @ '' Result downloaded successfully!'') ''success''
             (s\<lparr>downloads := downloads s @
                  [\<lparr>download_name = ''number_plate_'' @ getTime e @ ''.txt'',
                    download_content = ''Detected Number Plate: '' @ plateText @ [CHR 0x0A]
                                       @ ''Timestamp: '' @ toLocaleString e\<rparr>]\<rparr>)
         else showNotification (warning_sign @ '' No valid result to download!'') ''warning'' s)"

definition clearAll :: "ui \<Rightarrow> ui" where
  "clearAll s =
     showNotification (bin_sign @ '' All inputs and results cleared!'') ''info''
       (set_button DetectBtn (\<lambda>b. b\<lparr>disabled := True\<rparr>)
          (set_button DownloadBtn (\<lambda>b. b\<lparr>disabled := True\<rparr>)
             (s\<lparr>files := [], preview_src := [], preview_display := ''none'',
                plateNumber := waiting_message, detected := False,
                resultDetails_display := ''none''\<rparr>)))"

subsection \<open>Everything that can happen to the page\<close>

text \<open>
  One constructor for each handler the script installs, with what the browser supplies
  to it. \<open>ChooseFiles\<close> is the browser's own change of the file input when the user picks
  files; \<open>DOMContentLoaded\<close> runs \<open>loadDetectionHistory\<close> and \<open>BeforeUnload\<close> runs
  \<open>stopWebcam\<close>.
\<close>

datatype event =
    ChooseFiles "blob list"
  | PreviewImage "string option"
  | UploadImage elem env
  | InitializeWebcam "stream option"
  | StopWebcam
  | CaptureFromWebcam env
  | DownloadResult env
  | ClearAll
  | DOMContentLoaded
  | BeforeUnload

fun step :: "event \<Rightarrow> ui \<Rightarrow> ui" where
  "step (ChooseFiles fs) s = s\<lparr>files := fs\<rparr>"
| "step (PreviewImage loaded) s = previewImage loaded s"
| "step (UploadImage btn e) s = uploadImage btn e s"
| "step (InitializeWebcam granted) s = initializeWebcam granted s"
| "step StopWebcam s = stopWebcam s"
| "step (CaptureFromWebcam e) s = captureFromWebcam e s"
| "step (DownloadResult e) s = downloadResult e s"
| "step ClearAll s = clearAll s"
| "step DOMContentLoaded s = loadDetectionHistory s"
| "step BeforeUnload s = stopWebcam s"

fun run :: "event list \<Rightarrow> ui \<Rightarrow> ui" where
  "run [] s = s"
| "run (ev # evs) s = run evs (step ev s)"

section \<open>What the claims speak of\<close>

text \<open>
  The payload reports a plate when its \<open>number_plate\<close> is present, non-empty and not
  the sentinel. This is the wording of the specification; \<open>branch_condition\<close> below
  shows that it is the test both handlers make.
\<close>

definition plate_reported :: "payload \<Rightarrow> bool" where
  "plate_reported data =
     (case number_plate data of
        None \<Rightarrow> False
      | Some p \<Rightarrow> p \<noteq> [] \<and> p \<noteq> ''No plate detected'')"

text \<open>The two outcomes a handler renders for a payload it has read.\<close>

definition detected_state :: "payload \<Rightarrow> ui \<Rightarrow> bool" where
  "detected_state data s =
     (Some (plateNumber s) = number_plate data \<and> detected s
      \<and> resultDetails_display s = ''block''
      \<and> \<not> disabled (buttons s DownloadBtn)
      \<and> notifications s \<noteq> [] \<and> snd (last (notifications s)) = ''success'')"

definition no_plate_state :: "ui \<Rightarrow> bool" where
  "no_plate_state s =
     (plateNumber s = no_plate_message \<and> \<not> detected s
      \<and> resultDetails_display s = ''none''
      \<and> disabled (buttons s DownloadBtn)
      \<and> notifications s \<noteq> [] \<and> snd (last (notifications s)) = ''error'')"

text \<open>
  The payload a handler gets to read, if any. \<open>uploadImage\<close> throws on a response that
  is not ok before it reads the body; \<open>captureFromWebcam\<close> reads the body of any response.
\<close>

definition upload_payload :: "env \<Rightarrow> payload option" where
  "upload_payload e =
     (case fetched e of
        NetworkError \<Rightarrow> None
      | Response res_ok body \<Rightarrow> if res_ok then body else None)"

definition capture_payload :: "env \<Rightarrow> payload option" where
  "capture_payload e =
     (case toBlob e of
        None \<Rightarrow> None
      | Some _ \<Rightarrow> (case fetched e of NetworkError \<Rightarrow> None | Response res_ok body \<Rightarrow> body))"

text \<open>
  The payload of a response that is ok, whichever handler receives it, and the responses
  that arrive with a status that is not ok.
\<close>

definition ok_payload :: "env \<Rightarrow> payload option" where
  "ok_payload e =
     (case fetched e of
        NetworkError \<Rightarrow> None
      | Response res_ok body \<Rightarrow> if res_ok then body else None)"

definition not_ok :: "fetch_result \<Rightarrow> bool" where
  "not_ok r = (case r of NetworkError \<Rightarrow> False | Response res_ok body \<Rightarrow> \<not> res_ok)"

definition recorded :: "payload option \<Rightarrow> bool" where
  "recorded d = (case d of None \<Rightarrow> False | Some data \<Rightarrow> plate_reported data)"

definition new_item :: "payload \<Rightarrow> env \<Rightarrow> history_item" where
  "new_item data e =
     \<lparr>plate = the (number_plate data), item_confidence = confidence data,
      processTime = elapsed e, timestamp = toLocaleString e\<rparr>"

definition history_bounded :: "ui \<Rightarrow> bool" where
  "history_bounded s =
     (length (detectionHistory s) \<le> 10 \<and>
      (case anprHistory s of None \<Rightarrow> True | Some h \<Rightarrow> length h \<le> 10))"

text \<open>The four words \<open>downloadResult\<close> looks for, and the file it builds.\<close>

definition has_marker :: "string \<Rightarrow> bool" where
  "has_marker t =
     (text_includes t ''Waiting'' \<or> text_includes t ''No plate''
      \<or> text_includes t ''Detecting'' \<or> text_includes t ''Error'')"

definition result_file :: "string \<Rightarrow> env \<Rightarrow> download" where
  "result_file t e =
     \<lparr>download_name = ''number_plate_'' @ getTime e @ ''.txt'',
      download_content = ''Detected Number Plate: '' @ t @ [CHR 0x0A] @ ''Timestamp: ''
                         @ toLocaleString e\<rparr>"

section \<open>The Validator of the detection pipeline\<close>

text \<open>
  The Validator/Normalizer belongs to the server-side pipeline, whose code is not among
  the sources; what follows is taken from section 4.5 of the specification. The
  configuration holds the normalisation and the plate-format policy; the policy is the
  set of texts its pattern (or its per-region patterns) accepts.
\<close>

record recognition_outcome =
  raw :: string
  engine_confidence :: rat
  region :: nat

record validator_config =
  normalise :: "string \<Rightarrow> string"
  plateFormatPattern :: "string \<Rightarrow> bool"

datatype validation = Rejected | NormalizedPlate string

text \<open>
  Modelled from the spec: \<open>validate\<close> of the Validator/Normalizer, which is missing from
  the sources. It normalises the raw text of a recognition outcome and matches the result
  against the configured plate-format policy; a result that fails the policy is rejected,
  not corrected.
\<close>

definition validate :: "validator_config \<Rightarrow> recognition_outcome \<Rightarrow> validation" where
  "validate cfg outcome =
     (let candidate = normalise cfg (raw outcome)
      in if plateFormatPattern cfg candidate then NormalizedPlate candidate else Rejected)"

text \<open>
  Modelled from the spec: the Validator's choice among several outcomes, which is missing
  from the sources. The outcomes are taken best first, and the first one that has
  non-empty text and validates is accepted; \<open>None\<close> is "no plate detected".
\<close>

fun first_accepted :: "validator_config \<Rightarrow> recognition_outcome list \<Rightarrow> (string \<times> rat) option" where
  "first_accepted cfg [] = None"
| "first_accepted cfg (outcome # others) =
     (if raw outcome = [] then first_accepted cfg others
      else (case validate cfg outcome of
              NormalizedPlate p \<Rightarrow> Some (p, engine_confidence outcome)
            | Rejected \<Rightarrow> first_accepted cfg others))"

section \<open>Sample pages and responses\<close>

definition sample_button :: button where
  "sample_button = \<lparr>innerHTML = ''Detect Plate'', disabled = False\<rparr>"

definition sample_page :: ui where
  "sample_page =
     \<lparr>files = [''car.jpg''], preview_src = ''data:image/jpeg;base64,AAAA'',
      preview_display = ''block'', plateNumber = waiting_message, detected = False,
      confidence_cell = ConfidenceMarkup [], processingTime_cell = TimeMarkup [],
      resultDetails_display = ''none'', buttons = (\<lambda>_. sample_button),
      cameraStream = Some 1, webcam_srcObject = Some 1,
      cameraOverlay_display = ''none'', cameraOverlay_text = ''Camera Off'',
      detectionHistory = [], anprHistory = None, historyList = NoHistory,
      notifications = [], requests = [], downloads = []\<rparr>"

definition sample_env :: "fetch_result \<Rightarrow> env" where
  "sample_env r =
     \<lparr>fetched = r, elapsed = 420, toLocaleString = ''2/11/2026, 10:25:00'',
      getTime = ''1793615100000'', toBlob = Some ''capture.jpg''\<rparr>"

definition sample_plate :: payload where
  "sample_plate = Payload (Some ''TN09AB1234'') (Some (9 / 10))"

definition sentinel_plate :: payload where
  "sentinel_plate = Payload (Some ''No plate detected'') (Some 0)"

definition empty_plate :: payload where
  "empty_plate = Payload (Some []) (Some (1 / 2))"

definition error_body :: payload where
  "error_body = Payload None None"

definition zero_confidence :: payload where
  "zero_confidence = Payload (Some ''TN09AB1234'') (Some 0)"

definition sample_item :: history_item where
  "sample_item = \<lparr>plate = ''MH01CD5678'', item_confidence = Some (4 / 5), processTime = 388,
                  timestamp = ''1/11/2026, 18:02:11''\<rparr>"

definition full_page :: ui where
  "full_page = sample_page\<lparr>detectionHistory := replicate 10 sample_item,
                           anprHistory := Some (replicate 10 sample_item)\<rparr>"

definition camera_off_page :: ui where
  "camera_off_page = sample_page\<lparr>cameraStream := None, webcam_srcObject := None\<rparr>"

definition no_file_page :: ui where
  "no_file_page = sample_page\<lparr>files := []\<rparr>"

definition blank_page :: ui where
  "blank_page = sample_page\<lparr>plateNumber := []\<rparr>"

text \<open>
  The page while a second capture waits for its response, after a first capture found a
  plate: \<open>captureFromWebcam\<close> has run up to its \<open>await\<close>.
\<close>

definition capturing_page :: ui where
  "capturing_page =
     capture_loading
       (captureFromWebcam (sample_env (Response True (Some sample_plate))) sample_page)"

definition sample_config :: validator_config where
  "sample_config =
     \<lparr>normalise = filter (\<lambda>c. c \<noteq> CHR '' ''),
      plateFormatPattern = (\<lambda>p. length p = 10 \<and> take 2 p = ''TN'')\<rparr>"

definition sample_outcome :: "string \<Rightarrow> recognition_outcome" where
  "sample_outcome t = \<lparr>raw = t, engine_confidence = 2 / 5, region = 0\<rparr>"

section \<open>Facts about the pieces\<close>

lemmas handler_defs =
  showNotification_def set_button_def loadDetectionHistory_def addToHistory_def

lemma text_includes_iff: "text_includes t sub \<longleftrightarrow> sublist sub t"
  by (induction t) (auto simp: sublist_Cons_right)

lemma branch_condition:
  "(truthy_string (number_plate data) \<and> number_plate data \<noteq> Some no_plate_detected)
     = plate_reported data"
  by (cases "number_plate data")
     (auto simp: truthy_string_def plate_reported_def no_plate_detected_def)

lemma reported_plate_nonempty: "plate_reported data \<Longrightarrow> the (number_plate data) \<noteq> []"
  by (auto simp: plate_reported_def split: option.splits)

lemma messages_nonempty:
  "no_plate_message \<noteq> []" "processing_error_message \<noteq> []" "capture_failed_message \<noteq> []"
  "waiting_message \<noteq> []"
  by (simp_all add: no_plate_message_def processing_error_message_def capture_failed_message_def
      waiting_message_def)

subsection \<open>The rendered outcome\<close>

lemma upload_data_reported:
  "plate_reported data \<Longrightarrow> detected_state data (upload_data data e s)"
  unfolding upload_data_def branch_condition
  by (auto simp: detected_state_def handler_defs Let_def plate_reported_def split: option.splits)

lemma upload_data_not_reported:
  "\<not> plate_reported data \<Longrightarrow> no_plate_state (upload_data data e s)"
  unfolding upload_data_def branch_condition
  by (simp add: no_plate_state_def handler_defs)

lemma capture_data_reported:
  "plate_reported data \<Longrightarrow> detected_state data (capture_data data e s)"
  unfolding capture_data_def branch_condition
  by (auto simp: detected_state_def handler_defs Let_def plate_reported_def split: option.splits)

lemma capture_data_not_reported:
  "\<not> plate_reported data \<Longrightarrow> no_plate_state (capture_data data e s)"
  unfolding capture_data_def branch_condition
  by (simp add: no_plate_state_def handler_defs)

lemma no_plate_not_detected: "no_plate_state s \<Longrightarrow> \<not> detected_state data s"
  by (simp add: no_plate_state_def detected_state_def)

lemma finally_detected:
  "btn \<noteq> DownloadBtn \<Longrightarrow> detected_state data (set_button btn f s) = detected_state data s"
  by (simp add: detected_state_def set_button_def)

lemma finally_no_plate:
  "btn \<noteq> DownloadBtn \<Longrightarrow> no_plate_state (set_button btn f s) = no_plate_state s"
  by (simp add: no_plate_state_def set_button_def)

lemma uploadImage_delivered:
  "files s = file0 # rest \<Longrightarrow> fetched e = Response True (Some data) \<Longrightarrow>
   uploadImage btn e s =
     set_button btn (\<lambda>b. b\<lparr>innerHTML := innerHTML (buttons s btn), disabled := False\<rparr>)
       (upload_data data e ((upload_loading btn s)\<lparr>requests := requests s @ [Upload file0]\<rparr>))"
  by (simp add: uploadImage_def upload_try_def Let_def upload_loading_def set_button_def)

lemma captureFromWebcam_delivered:
  "cameraStream s = Some cam \<Longrightarrow> toBlob e = Some frame \<Longrightarrow>
   fetched e = Response res_ok (Some data) \<Longrightarrow>
   captureFromWebcam e s =
     set_button CaptureBtn
       (\<lambda>b. b\<lparr>innerHTML := innerHTML (buttons s CaptureBtn), disabled := False\<rparr>)
       (capture_data data e ((capture_loading s)\<lparr>requests := requests s @ [Upload frame]\<rparr>))"
  by (simp add: captureFromWebcam_def capture_try_def Let_def capture_loading_def set_button_def)

subsection \<open>The history and its stored copy\<close>

lemma addToHistory_history:
  "detectionHistory (addToHistory p c t now s) =
     take 10 (\<lparr>plate = p, item_confidence = c, processTime = t, timestamp = now\<rparr>
              # detectionHistory s)"
  by (simp add: addToHistory_def loadDetectionHistory_def Let_def)

lemma addToHistory_stored:
  "anprHistory (addToHistory p c t now s) = Some (detectionHistory (addToHistory p c t now s))"
  by (simp add: addToHistory_def loadDetectionHistory_def Let_def)

lemma showNotification_history [simp]:
  "detectionHistory (showNotification m k s) = detectionHistory s"
  "anprHistory (showNotification m k s) = anprHistory s"
  by (simp_all add: showNotification_def)

lemma set_button_history [simp]:
  "detectionHistory (set_button b f s) = detectionHistory s"
  "anprHistory (set_button b f s) = anprHistory s"
  by (simp_all add: set_button_def)

lemma loadDetectionHistory_history [simp]:
  "detectionHistory (loadDetectionHistory s) = detectionHistory s"
  "anprHistory (loadDetectionHistory s) = anprHistory s"
  by (simp_all add: loadDetectionHistory_def)

lemma catch_history [simp]:
  "detectionHistory (upload_catch s) = detectionHistory s"
  "anprHistory (upload_catch s) = anprHistory s"
  "detectionHistory (capture_catch s) = detectionHistory s"
  "anprHistory (capture_catch s) = anprHistory s"
  by (simp_all add: upload_catch_def capture_catch_def)

lemma loading_history [simp]:
  "detectionHistory (upload_loading btn s) = detectionHistory s"
  "anprHistory (upload_loading btn s) = anprHistory s"
  "detectionHistory (capture_loading s) = detectionHistory s"
  "anprHistory (capture_loading s) = anprHistory s"
  by (simp_all add: upload_loading_def capture_loading_def)

lemma upload_data_history:
  "detectionHistory (upload_data data e s) =
     (if plate_reported data then take 10 (new_item data e # detectionHistory s)
      else detectionHistory s)"
  "anprHistory (upload_data data e s) =
     (if plate_reported data then Some (take 10 (new_item data e # detectionHistory s))
      else anprHistory s)"
  unfolding upload_data_def branch_condition
  by (simp_all add: addToHistory_stored addToHistory_history new_item_def)

lemma capture_data_history:
  "detectionHistory (capture_data data e s) =
     (if plate_reported data then take 10 (new_item data e # detectionHistory s)
      else detectionHistory s)"
  "anprHistory (capture_data data e s) =
     (if plate_reported data then Some (take 10 (new_item data e # detectionHistory s))
      else anprHistory s)"
  unfolding capture_data_def branch_condition
  by (simp_all add: addToHistory_stored addToHistory_history new_item_def)

lemma upload_try_history:
  "detectionHistory (upload_try file0 e s) =
     (if recorded (upload_payload e)
      then take 10 (new_item (the (upload_payload e)) e # detectionHistory s)
      else detectionHistory s)"
  "anprHistory (upload_try file0 e s) =
     (if recorded (upload_payload e)
      then Some (take 10 (new_item (the (upload_payload e)) e # detectionHistory s))
      else anprHistory s)"
  by (simp_all add: upload_try_def upload_payload_def recorded_def upload_data_history Let_def
      split: fetch_result.splits option.splits)

lemma capture_try_history:
  "detectionHistory (capture_try e s) =
     (if recorded (capture_payload e)
      then take 10 (new_item (the (capture_payload e)) e # detectionHistory s)
      else detectionHistory s)"
  "anprHistory (capture_try e s) =
     (if recorded (capture_payload e)
      then Some (take 10 (new_item (the (capture_payload e)) e # detectionHistory s))
      else anprHistory s)"
  by (simp_all add: capture_try_def capture_payload_def recorded_def capture_data_history Let_def
      split: fetch_result.splits option.splits)

lemma uploadImage_history:
  "detectionHistory (uploadImage btn e s) =
     (if files s \<noteq> [] \<and> recorded (upload_payload e)
      then take 10 (new_item (the (upload_payload e)) e # detectionHistory s)
      else detectionHistory s)"
  "anprHistory (uploadImage btn e s) =
     (if files s \<noteq> [] \<and> recorded (upload_payload e)
      then Some (take 10 (new_item (the (upload_payload e)) e # detectionHistory s))
      else anprHistory s)"
  by (simp_all add: uploadImage_def upload_try_history Let_def split: list.splits)

lemma captureFromWebcam_history:
  "detectionHistory (captureFromWebcam e s) =
     (if cameraStream s \<noteq> None \<and> recorded (capture_payload e)
      then take 10 (new_item (the (capture_payload e)) e # detectionHistory s)
      else detectionHistory s)"
  "anprHistory (captureFromWebcam e s) =
     (if cameraStream s \<noteq> None \<and> recorded (capture_payload e)
      then Some (take 10 (new_item (the (capture_payload e)) e # detectionHistory s))
      else anprHistory s)"
  by (simp_all add: captureFromWebcam_def capture_try_history Let_def split: option.splits)

lemma other_handlers_history [simp]:
  "detectionHistory (previewImage loaded s) = detectionHistory s"
  "anprHistory (previewImage loaded s) = anprHistory s"
  "detectionHistory (initializeWebcam granted s) = detectionHistory s"
  "anprHistory (initializeWebcam granted s) = anprHistory s"
  "detectionHistory (stopWebcam s) = detectionHistory s"
  "anprHistory (stopWebcam s) = anprHistory s"
  "detectionHistory (downloadResult e s) = detectionHistory s"
  "anprHistory (downloadResult e s) = anprHistory s"
  "detectionHistory (clearAll s) = detectionHistory s"
  "anprHistory (clearAll s) = anprHistory s"
  by (simp_all add: previewImage_def initializeWebcam_def stopWebcam_def downloadResult_def
      clearAll_def Let_def split: list.splits option.splits)

lemma step_bounded: "history_bounded s \<Longrightarrow> history_bounded (step ev s)"
  by (cases ev)
     (simp_all add: history_bounded_def uploadImage_history captureFromWebcam_history)

lemma run_bounded: "history_bounded s \<Longrightarrow> history_bounded (run evs s)"
  by (induction evs arbitrary: s) (simp_all add: step_bounded)

lemma load_script_bounded:
  "(case anprHistory s of None \<Rightarrow> True | Some h \<Rightarrow> length h \<le> 10) \<Longrightarrow>
   history_bounded (load_script s)"
  by (simp add: history_bounded_def load_script_def split: option.splits)

subsection \<open>The displayed text\<close>

lemma pieces_plateNumber [simp]:
  "plateNumber (showNotification m k s) = plateNumber s"
  "plateNumber (set_button b f s) = plateNumber s"
  "plateNumber (loadDetectionHistory s) = plateNumber s"
  "plateNumber (addToHistory p c t now s) = plateNumber s"
  by (simp_all add: showNotification_def set_button_def loadDetectionHistory_def addToHistory_def
      Let_def)

lemma upload_data_plateNumber:
  "plateNumber (upload_data data e s) =
     (if plate_reported data then the (number_plate data) else no_plate_message)"
  unfolding upload_data_def branch_condition by simp

lemma capture_data_plateNumber:
  "plateNumber (capture_data data e s) =
     (if plate_reported data then the (number_plate data) else no_plate_message)"
  unfolding capture_data_def branch_condition by simp

lemma upload_try_plateNumber: "plateNumber (upload_try file0 e s) \<noteq> []"
  by (simp add: upload_try_def upload_catch_def upload_data_plateNumber messages_nonempty
      reported_plate_nonempty Let_def split: fetch_result.splits option.splits)

lemma capture_try_plateNumber: "plateNumber (capture_try e s) \<noteq> []"
  by (simp add: capture_try_def capture_catch_def capture_data_plateNumber messages_nonempty
      reported_plate_nonempty Let_def split: fetch_result.splits option.splits)

lemma uploadImage_plateNumber:
  "plateNumber (uploadImage btn e s) \<noteq> [] \<longleftrightarrow> files s \<noteq> [] \<or> plateNumber s \<noteq> []"
  by (simp add: uploadImage_def upload_try_plateNumber Let_def split: list.splits)

lemma captureFromWebcam_plateNumber:
  "plateNumber (captureFromWebcam e s) \<noteq> [] \<longleftrightarrow> cameraStream s \<noteq> None \<or> plateNumber s \<noteq> []"
  by (simp add: captureFromWebcam_def capture_try_plateNumber Let_def split: option.splits)

lemma empty_plate_is_no_plate:
  "number_plate data = Some [] \<Longrightarrow> plateNumber (upload_data data e s) = no_plate_message"
  "number_plate data = Some [] \<Longrightarrow> plateNumber (capture_data data e s) = no_plate_message"
  by (simp_all add: upload_data_plateNumber capture_data_plateNumber plate_reported_def)

subsection \<open>Failed responses and the confidence cell\<close>

lemma uploadImage_failed_response:
  assumes "files s = file0 # rest" and "fetched e = Response False body"
    and "btn \<noteq> DownloadBtn"
  shows "plateNumber (uploadImage btn e s) = processing_error_message
       \<and> \<not> detected (uploadImage btn e s)
       \<and> resultDetails_display (uploadImage btn e s) = ''none''
       \<and> disabled (buttons (uploadImage btn e s) DownloadBtn)
       \<and> \<not> disabled (buttons (uploadImage btn e s) btn)
       \<and> innerHTML (buttons (uploadImage btn e s) btn) = innerHTML (buttons s btn)
       \<and> detectionHistory (uploadImage btn e s) = detectionHistory s
       \<and> anprHistory (uploadImage btn e s) = anprHistory s"
  using assms
  by (simp add: uploadImage_def upload_try_def upload_catch_def upload_loading_def
      showNotification_def set_button_def Let_def)

lemma confidence_cell_of_detection:
  "plate_reported data \<Longrightarrow>
   confidence_cell (upload_data data e s) =
     (case confidence data of
        None \<Rightarrow> NotAvailable
      | Some c \<Rightarrow> if c = 0 then NotAvailable else Percent c)"
  "plate_reported data \<Longrightarrow>
   confidence_cell (capture_data data e s) =
     (case confidence data of
        None \<Rightarrow> NotAvailable
      | Some c \<Rightarrow> if c = 0 then NotAvailable else Percent c)"
  unfolding upload_data_def capture_data_def branch_condition
  by (simp_all add: handler_defs truthy_number_def Let_def split: option.splits)

subsection \<open>The Validator\<close>

lemma first_accepted_matches:
  "first_accepted cfg outcomes = Some (p, c) \<Longrightarrow> plateFormatPattern cfg p"
  by (induction outcomes)
     (auto simp: validate_def Let_def split: if_splits validation.splits)

subsection \<open>Responses that are ok\<close>

lemma ok_payload_Some:
  "ok_payload e = Some data \<longleftrightarrow> fetched e = Response True (Some data)"
  by (auto simp: ok_payload_def split: fetch_result.splits if_splits)


lemma ok_payload_capture:
  "\<not> not_ok (fetched e) \<Longrightarrow>
   capture_payload e = (case toBlob e of None \<Rightarrow> None | Some frame \<Rightarrow> ok_payload e)"
  by (simp add: capture_payload_def ok_payload_def not_ok_def
      split: option.splits fetch_result.splits)

lemma uploadImage_ok_payload:
  assumes "files s \<noteq> []" and "btn \<noteq> DownloadBtn" and "ok_payload e = Some data"
  shows "(detected_state data (uploadImage btn e s) \<longleftrightarrow> plate_reported data)
       \<and> (\<not> plate_reported data \<longrightarrow> no_plate_state (uploadImage btn e s))"
proof -
  obtain file0 rest where f: "files s = file0 # rest"
    using assms(1) by (cases "files s") auto
  have r: "fetched e = Response True (Some data)"
    using assms(3) by (simp add: ok_payload_Some)
  show ?thesis
  proof (cases "plate_reported data")
    case True
    then show ?thesis
      using assms(2)
      by (simp add: uploadImage_delivered [OF f r] finally_detected upload_data_reported)
  next
    case False
    then have "no_plate_state (uploadImage btn e s)"
      using assms(2)
      by (simp add: uploadImage_delivered [OF f r] finally_no_plate upload_data_not_reported)
    then show ?thesis
      using False by (simp add: no_plate_not_detected)
  qed
qed

lemma captureFromWebcam_ok_payload:
  assumes "cameraStream s \<noteq> None" and "toBlob e \<noteq> None" and "ok_payload e = Some data"
  shows "(detected_state data (captureFromWebcam e s) \<longleftrightarrow> plate_reported data)
       \<and> (\<not> plate_reported data \<longrightarrow> no_plate_state (captureFromWebcam e s))"
proof -
  obtain cam frame where c: "cameraStream s = Some cam" and b: "toBlob e = Some frame"
    using assms(1,2) by auto
  have r: "fetched e = Response True (Some data)"
    using assms(3) by (simp add: ok_payload_Some)
  show ?thesis
  proof (cases "plate_reported data")
    case True
    then show ?thesis
      by (simp add: captureFromWebcam_delivered [OF c b r] finally_detected
          capture_data_reported)
  next
    case False
    then have "no_plate_state (captureFromWebcam e s)"
      by (simp add: captureFromWebcam_delivered [OF c b r] finally_no_plate
          capture_data_not_reported)
    then show ?thesis
      using False by (simp add: no_plate_not_detected)
  qed
qed

section \<open>The claims\<close>

text \<open>
  C1, as stated: for every server response to an upload or a capture the page shows the
  detected-plate state if and only if the response's \<open>number_plate\<close> is present,
  non-empty and not \<open>No plate detected\<close>, and in every other case the no-plate outcome.
  It fails on the upload path for a response that is not ok: \<open>uploadImage\<close> throws on
  \<open>!res.ok\<close> before it reads the body, so a response of status 500 that carries a plate
  is not shown as a detection, and one that carries none is shown as a processing error,
  not as the no-plate outcome.
\<close>

theorem upload_of_failed_response_counterexample:
  "plate_reported sample_plate
   \<and> \<not> detected_state sample_plate
        (uploadImage DetectBtn (sample_env (Response False (Some sample_plate))) sample_page)
   \<and> \<not> plate_reported error_body
   \<and> \<not> no_plate_state
        (uploadImage DetectBtn (sample_env (Response False (Some error_body))) sample_page)
   \<and> plateNumber
        (uploadImage DetectBtn (sample_env (Response False (Some error_body))) sample_page)
       = processing_error_message"
  by (simp add: plate_reported_def detected_state_def no_plate_state_def
      uploadImage_def upload_try_def upload_loading_def upload_catch_def
      showNotification_def set_button_def Let_def
      sample_env_def sample_page_def sample_plate_def error_body_def
      no_plate_message_def processing_error_message_def warning_sign_def cross_mark_def)

text \<open>
  C1, amended: for every response that is ok and whose body is a payload, the page shows
  the detected-plate state (the plate as text, marked detected, the details shown, the
  download button enabled, a success notification) if and only if the payload's
  \<open>number_plate\<close> is present, non-empty and not \<open>No plate detected\<close>, and for every
  other such payload it shows the no-plate outcome (the no-plate message, the details
  hidden, the download button disabled). This holds of \<open>uploadImage\<close> whenever a file is
  chosen and the clicked element is not the download button, and of
  \<open>captureFromWebcam\<close> whenever the camera is on and the canvas yields a frame.
\<close>

theorem rendering_of_ok_payload:
  "(files s \<noteq> [] \<and> btn \<noteq> DownloadBtn \<and> ok_payload e = Some data \<longrightarrow>
      (detected_state data (uploadImage btn e s) \<longleftrightarrow> plate_reported data)
      \<and> (\<not> plate_reported data \<longrightarrow> no_plate_state (uploadImage btn e s)))
   \<and> (cameraStream s \<noteq> None \<and> toBlob e \<noteq> None \<and> ok_payload e = Some data \<longrightarrow>
      (detected_state data (captureFromWebcam e s) \<longleftrightarrow> plate_reported data)
      \<and> (\<not> plate_reported data \<longrightarrow> no_plate_state (captureFromWebcam e s)))"
  using uploadImage_ok_payload [of s btn e data] captureFromWebcam_ok_payload [of s e data]
  by blast

theorem rendering_of_ok_payload_witness:
  "files camera_off_page \<noteq> [] \<and> cameraStream camera_off_page = None
   \<and> cameraStream no_file_page \<noteq> None \<and> files no_file_page = []
   \<and> DetectBtn \<noteq> DownloadBtn
   \<and> toBlob (sample_env (Response True (Some sample_plate))) \<noteq> None
   \<and> toBlob (sample_env (Response True (Some sentinel_plate))) \<noteq> None
   \<and> ok_payload (sample_env (Response True (Some sample_plate))) = Some sample_plate
   \<and> ok_payload (sample_env (Response True (Some sentinel_plate))) = Some sentinel_plate
   \<and> plate_reported sample_plate
   \<and> detected_state sample_plate
        (uploadImage DetectBtn (sample_env (Response True (Some sample_plate))) camera_off_page)
   \<and> detected_state sample_plate
        (captureFromWebcam (sample_env (Response True (Some sample_plate))) no_file_page)
   \<and> \<not> plate_reported sentinel_plate
   \<and> no_plate_state
        (uploadImage DetectBtn (sample_env (Response True (Some sentinel_plate))) camera_off_page)
   \<and> no_plate_state
        (captureFromWebcam (sample_env (Response True (Some sentinel_plate))) no_file_page)"
proof -
  have f: "files camera_off_page \<noteq> []" "cameraStream camera_off_page = None"
    "cameraStream no_file_page \<noteq> None" "files no_file_page = []"
    by (simp_all add: camera_off_page_def no_file_page_def sample_page_def)
  have b: "DetectBtn \<noteq> DownloadBtn" by simp
  have r: "ok_payload (sample_env (Response True (Some sample_plate))) = Some sample_plate"
    "ok_payload (sample_env (Response True (Some sentinel_plate))) = Some sentinel_plate"
    "toBlob (sample_env (Response True (Some sample_plate))) \<noteq> None"
    "toBlob (sample_env (Response True (Some sentinel_plate))) \<noteq> None"
    by (simp_all add: ok_payload_def sample_env_def)
  have p: "plate_reported sample_plate" "\<not> plate_reported sentinel_plate"
    by (simp_all add: plate_reported_def sample_plate_def sentinel_plate_def)
  show ?thesis
    using
      rendering_of_ok_payload
        [of camera_off_page DetectBtn "sample_env (Response True (Some sample_plate))"
            sample_plate]
      rendering_of_ok_payload
        [of camera_off_page DetectBtn "sample_env (Response True (Some sentinel_plate))"
            sentinel_plate]
      rendering_of_ok_payload
        [of no_file_page DetectBtn "sample_env (Response True (Some sample_plate))"
            sample_plate]
      rendering_of_ok_payload
        [of no_file_page DetectBtn "sample_env (Response True (Some sentinel_plate))"
            sentinel_plate]
      f b r p
    by simp
qed

text \<open>
  C2. A response that is not ok must end in the error state on both paths: the
  processing-error message, the details hidden, the download button disabled, the action
  button enabled again, nothing added to the history. \<open>uploadImage\<close> does so
  (\<open>uploadImage_failed_response\<close>). \<open>captureFromWebcam\<close> never looks at the status: for a
  response of status 500 whose body is a JSON object without \<open>number_plate\<close> it shows the
  no-plate message, which is neither error message, and for one whose body carries a plate
  it shows a detection, enables the download and adds an entry to the history.
\<close>

theorem capture_reads_failed_response:
  "plateNumber (captureFromWebcam (sample_env (Response False (Some error_body))) sample_page)
     = no_plate_message
   \<and> no_plate_message \<noteq> processing_error_message
   \<and> no_plate_message \<noteq> capture_failed_message
   \<and> plateNumber (uploadImage DetectBtn (sample_env (Response False (Some error_body))) sample_page)
     = processing_error_message
   \<and> detected (captureFromWebcam (sample_env (Response False (Some sample_plate))) sample_page)
   \<and> plateNumber (captureFromWebcam (sample_env (Response False (Some sample_plate))) sample_page)
     = ''TN09AB1234''
   \<and> \<not> disabled (buttons
         (captureFromWebcam (sample_env (Response False (Some sample_plate))) sample_page)
         DownloadBtn)
   \<and> length (detectionHistory
         (captureFromWebcam (sample_env (Response False (Some sample_plate))) sample_page)) = 1
   \<and> detectionHistory sample_page = []"
  by (simp add: captureFromWebcam_def capture_try_def capture_loading_def capture_data_def
      uploadImage_def upload_try_def upload_loading_def upload_catch_def
      showNotification_def set_button_def addToHistory_def loadDetectionHistory_def Let_def
      sample_env_def sample_page_def sample_plate_def error_body_def truthy_string_def
      truthy_number_def no_plate_detected_def no_plate_message_def processing_error_message_def
      capture_failed_message_def warning_sign_def cross_mark_def)




text \<open>
  C4. A response that carries a plate also carries a confidence in [0,1], and for every
  response rendered as a detection the confidence cell must show that confidence as a
  percentage with two decimals, never \<open>N/A\<close>. The handlers test \<open>data.confidence\<close>
  for truthiness, so a confidence of 0, which lies in [0,1], is shown as \<open>N/A\<close> on
  both paths; any other confidence is shown as its percentage
  (\<open>confidence_cell_of_detection\<close>).
\<close>

theorem zero_confidence_shown_as_not_available:
  "detected (uploadImage DetectBtn (sample_env (Response True (Some zero_confidence))) sample_page)
   \<and> plateNumber (uploadImage DetectBtn (sample_env (Response True (Some zero_confidence))) sample_page)
       = ''TN09AB1234''
   \<and> confidence zero_confidence = Some 0
   \<and> confidence_cell
       (uploadImage DetectBtn (sample_env (Response True (Some zero_confidence))) sample_page)
       = NotAvailable
   \<and> confidence_cell
       (captureFromWebcam (sample_env (Response True (Some zero_confidence))) sample_page)
       = NotAvailable
   \<and> confidence_cell
       (uploadImage DetectBtn (sample_env (Response True (Some sample_plate))) sample_page)
       = Percent (9 / 10)"
  by (simp add: captureFromWebcam_def capture_try_def capture_loading_def capture_data_def
      uploadImage_def upload_try_def upload_loading_def upload_data_def
      showNotification_def set_button_def addToHistory_def loadDetectionHistory_def Let_def
      sample_env_def sample_page_def sample_plate_def zero_confidence_def truthy_string_def
      truthy_number_def no_plate_detected_def)

text \<open>
  C5. The history is bounded: after every call of \<open>addToHistory\<close> the list
  \<open>detectionHistory\<close> has at most ten entries and the copy stored under \<open>anprHistory\<close>
  is that same list; the bound on the list and on the stored copy is kept by every handler
  of the script, hence by every sequence of events, and it holds after the script has
  loaded whenever it holds of what was stored.
\<close>

theorem history_is_bounded:
  "length (detectionHistory (addToHistory p c t now s)) \<le> 10
   \<and> anprHistory (addToHistory p c t now s) = Some (detectionHistory (addToHistory p c t now s))
   \<and> (history_bounded s \<longrightarrow> history_bounded (step ev s))
   \<and> (history_bounded s \<longrightarrow> history_bounded (run evs s))
   \<and> (history_bounded s \<longrightarrow> history_bounded (load_script s))"
proof -
  have "history_bounded (load_script s)" if "history_bounded s"
    using that by (intro load_script_bounded) (simp add: history_bounded_def)
  then show ?thesis
    by (simp add: addToHistory_history addToHistory_stored step_bounded run_bounded)
qed

theorem history_is_bounded_witness:
  "history_bounded full_page
   \<and> history_bounded
       (step (UploadImage DetectBtn (sample_env (Response True (Some sample_plate)))) full_page)
   \<and> length (detectionHistory
       (step (UploadImage DetectBtn (sample_env (Response True (Some sample_plate)))) full_page)) = 10
   \<and> history_bounded
       (run [CaptureFromWebcam (sample_env (Response True (Some sample_plate))), ClearAll] full_page)
   \<and> history_bounded (load_script full_page)"
proof -
  have b: "history_bounded full_page"
    by (simp add: history_bounded_def full_page_def)
  have l: "length (detectionHistory
       (step (UploadImage DetectBtn (sample_env (Response True (Some sample_plate)))) full_page)) = 10"
    by (simp add: uploadImage_history upload_payload_def recorded_def plate_reported_def
        sample_env_def sample_plate_def full_page_def sample_page_def)
  show ?thesis
    using history_is_bounded
      [of _ _ _ _ full_page "UploadImage DetectBtn (sample_env (Response True (Some sample_plate)))"
          "[CaptureFromWebcam (sample_env (Response True (Some sample_plate))), ClearAll]"] b l
    by simp
qed

text \<open>
  C6. The text of the plate display is never empty: \<open>clearAll\<close> writes the waiting
  message; \<open>uploadImage\<close> with a file chosen and \<open>captureFromWebcam\<close> with the camera on
  write a detected plate, the no-plate message or an error message, none of them empty;
  without a file, or with the camera off, they leave the text as it was, so a text that
  was not empty stays so. A payload whose \<open>number_plate\<close> is the empty string gives the
  no-plate message.
\<close>

theorem plate_display_never_empty:
  "plateNumber (clearAll s) \<noteq> []
   \<and> (files s \<noteq> [] \<longrightarrow> plateNumber (uploadImage btn e s) \<noteq> [])
   \<and> (cameraStream s \<noteq> None \<longrightarrow> plateNumber (captureFromWebcam e s) \<noteq> [])
   \<and> (plateNumber s \<noteq> [] \<longrightarrow>
        plateNumber (uploadImage btn e s) \<noteq> [] \<and> plateNumber (captureFromWebcam e s) \<noteq> [])
   \<and> (files s \<noteq> [] \<and> upload_payload e = Some data \<and> number_plate data = Some [] \<longrightarrow>
        plateNumber (uploadImage btn e s) = no_plate_message)
   \<and> (cameraStream s \<noteq> None \<and> capture_payload e = Some data \<and> number_plate data = Some [] \<longrightarrow>
        plateNumber (captureFromWebcam e s) = no_plate_message)"
proof -
  have "plateNumber (uploadImage btn e s) = no_plate_message"
    if "files s \<noteq> []" "upload_payload e = Some data" "number_plate data = Some []"
    using that
    by (auto simp: uploadImage_def upload_try_def upload_payload_def empty_plate_is_no_plate Let_def
        split: list.splits fetch_result.splits if_splits)
  moreover have "plateNumber (captureFromWebcam e s) = no_plate_message"
    if "cameraStream s \<noteq> None" "capture_payload e = Some data" "number_plate data = Some []"
    using that
    by (auto simp: captureFromWebcam_def capture_try_def capture_payload_def
        empty_plate_is_no_plate Let_def split: option.splits fetch_result.splits)
  ultimately show ?thesis
    by (simp add: uploadImage_plateNumber captureFromWebcam_plateNumber)
       (simp add: clearAll_def messages_nonempty)
qed

theorem plate_display_never_empty_witness:
  "files sample_page \<noteq> [] \<and> cameraStream sample_page \<noteq> None \<and> plateNumber sample_page \<noteq> []
   \<and> upload_payload (sample_env (Response True (Some empty_plate))) = Some empty_plate
   \<and> capture_payload (sample_env (Response True (Some empty_plate))) = Some empty_plate
   \<and> number_plate empty_plate = Some []
   \<and> plateNumber (uploadImage DetectBtn (sample_env (Response True (Some empty_plate))) sample_page)
       = no_plate_message
   \<and> plateNumber (captureFromWebcam (sample_env (Response True (Some empty_plate))) sample_page)
       = no_plate_message
   \<and> no_plate_message \<noteq> []"
proof -
  have a: "files sample_page \<noteq> []" "cameraStream sample_page \<noteq> None" "plateNumber sample_page \<noteq> []"
    by (simp_all add: sample_page_def waiting_message_def)
  have p: "upload_payload (sample_env (Response True (Some empty_plate))) = Some empty_plate"
    "capture_payload (sample_env (Response True (Some empty_plate))) = Some empty_plate"
    "number_plate empty_plate = Some []"
    by (simp_all add: upload_payload_def capture_payload_def sample_env_def empty_plate_def)
  show ?thesis
    using plate_display_never_empty
      [of sample_page DetectBtn "sample_env (Response True (Some empty_plate))" empty_plate] a p
    by (simp add: messages_nonempty)
qed

text \<open>
  C7. The Validator never accepts a plate that fails the configured pattern: a plate that
  \<open>validate\<close> produces matches \<open>plateFormatPattern\<close>, a normalised text that fails the
  pattern is rejected, and so the plate of the first accepted outcome matches the pattern.
\<close>

theorem validate_accepts_only_matching:
  "(validate cfg outcome = NormalizedPlate p \<longrightarrow> plateFormatPattern cfg p)
   \<and> (\<not> plateFormatPattern cfg (normalise cfg (raw outcome)) \<longrightarrow> validate cfg outcome = Rejected)
   \<and> (first_accepted cfg outcomes = Some (p, c) \<longrightarrow> plateFormatPattern cfg p)"
  using first_accepted_matches [of cfg outcomes p c]
  by (auto simp: validate_def Let_def split: if_splits)

theorem validate_accepts_only_matching_witness:
  "validate sample_config (sample_outcome ''TN09 AB 1234'') = NormalizedPlate ''TN09AB1234''
   \<and> plateFormatPattern sample_config ''TN09AB1234''
   \<and> \<not> plateFormatPattern sample_config (normalise sample_config (raw (sample_outcome ''TN09 AB 123'')))
   \<and> validate sample_config (sample_outcome ''TN09 AB 123'') = Rejected
   \<and> first_accepted sample_config [sample_outcome ''TN09 AB 123'', sample_outcome ''TN09 AB 1234'']
       = Some (''TN09AB1234'', 2 / 5)"
proof -
  have v: "validate sample_config (sample_outcome ''TN09 AB 1234'') = NormalizedPlate ''TN09AB1234''"
    by (simp add: validate_def sample_config_def sample_outcome_def)
  have r: "\<not> plateFormatPattern sample_config
              (normalise sample_config (raw (sample_outcome ''TN09 AB 123'')))"
    by (simp add: sample_config_def sample_outcome_def)
  have f: "first_accepted sample_config
             [sample_outcome ''TN09 AB 123'', sample_outcome ''TN09 AB 1234'']
           = Some (''TN09AB1234'', 2 / 5)"
    by (simp add: validate_def sample_config_def sample_outcome_def)
  show ?thesis
    using validate_accepts_only_matching
        [of sample_config "sample_outcome ''TN09 AB 1234''" "''TN09AB1234''"
            "[sample_outcome ''TN09 AB 123'', sample_outcome ''TN09 AB 1234'']" "2 / 5"]
      validate_accepts_only_matching
        [of sample_config "sample_outcome ''TN09 AB 123''" "''TN09AB1234''" "[]" "2 / 5"]
      v r f
    by simp
qed

text \<open>
  C8. \<open>clearAll\<close> resets the input, the preview and the result only: afterwards the file
  input is empty, the preview is hidden, the plate display reads
  \<open>Waiting for detection...\<close> and is not marked detected, the details are hidden, the
  download and detect buttons are disabled; \<open>detectionHistory\<close>, the stored
  \<open>anprHistory\<close>, the rendered history list, the camera, the requests made and the files
  downloaded are as before.
\<close>

theorem clearAll_resets_inputs_only:
  "files (clearAll s) = [] \<and> preview_display (clearAll s) = ''none''
   \<and> plateNumber (clearAll s) = ''Waiting for detection...''
   \<and> \<not> detected (clearAll s) \<and> resultDetails_display (clearAll s) = ''none''
   \<and> disabled (buttons (clearAll s) DownloadBtn) \<and> disabled (buttons (clearAll s) DetectBtn)
   \<and> detectionHistory (clearAll s) = detectionHistory s
   \<and> anprHistory (clearAll s) = anprHistory s
   \<and> historyList (clearAll s) = historyList s
   \<and> cameraStream (clearAll s) = cameraStream s
   \<and> requests (clearAll s) = requests s \<and> downloads (clearAll s) = downloads s"
  by (simp add: clearAll_def showNotification_def set_button_def waiting_message_def)

text \<open>
  C9. With no file selected, \<open>uploadImage\<close> shows a warning notification and does nothing
  else: no request is made, and the plate display, the result details, every button and
  the history with its stored copy are unchanged.
\<close>

theorem uploadImage_without_file:
  assumes "files s = []"
  shows "uploadImage btn e s =
           s\<lparr>notifications := notifications s
                @ [(warning_sign @ '' Please choose an image first!'', ''warning'')]\<rparr>
       \<and> requests (uploadImage btn e s) = requests s
       \<and> plateNumber (uploadImage btn e s) = plateNumber s
       \<and> resultDetails_display (uploadImage btn e s) = resultDetails_display s
       \<and> buttons (uploadImage btn e s) = buttons s
       \<and> detectionHistory (uploadImage btn e s) = detectionHistory s
       \<and> anprHistory (uploadImage btn e s) = anprHistory s"
  using assms by (simp add: uploadImage_def showNotification_def)

theorem uploadImage_without_file_witness:
  "files (clearAll sample_page) = []
   \<and> requests (uploadImage DetectBtn (sample_env (Response True (Some sample_plate)))
        (clearAll sample_page)) = []
   \<and> plateNumber (uploadImage DetectBtn (sample_env (Response True (Some sample_plate)))
        (clearAll sample_page)) = waiting_message
   \<and> snd (last (notifications (uploadImage DetectBtn (sample_env (Response True (Some sample_plate)))
        (clearAll sample_page)))) = ''warning''"
proof -
  have f: "files (clearAll sample_page) = []"
    by (simp add: clearAll_def showNotification_def set_button_def)
  show ?thesis
    using uploadImage_without_file
      [OF f, of DetectBtn "sample_env (Response True (Some sample_plate))"] f
    by (simp add: clearAll_def showNotification_def set_button_def sample_page_def)
qed

text \<open>
  C10, as stated: if the displayed text contains \<open>Waiting\<close>, \<open>No plate\<close>, \<open>Detecting\<close>
  or \<open>Error\<close> no file is created, otherwise a file is. It fails for the empty text,
  which contains none of the four words and for which \<open>downloadResult\<close> creates no file
  and shows the warning.
\<close>

theorem download_of_empty_text_counterexample:
  "plateNumber blank_page = [] \<and> \<not> text_includes (plateNumber blank_page) ''Waiting''
   \<and> \<not> text_includes (plateNumber blank_page) ''No plate''
   \<and> \<not> text_includes (plateNumber blank_page) ''Detecting''
   \<and> \<not> text_includes (plateNumber blank_page) ''Error''
   \<and> downloads (downloadResult (sample_env NetworkError) blank_page) = downloads blank_page
   \<and> snd (last (notifications (downloadResult (sample_env NetworkError) blank_page))) = ''warning''"
  by (simp add: blank_page_def sample_page_def downloadResult_def showNotification_def)

text \<open>
  C10, amended: if the displayed text is empty or contains \<open>Waiting\<close>, \<open>No plate\<close>,
  \<open>Detecting\<close> or \<open>Error\<close>, \<open>downloadResult\<close> creates no file and shows a warning; if
  it is non-empty, contains none of the four and is not one of the two status texts of
  the capture path (\<open>Processing...\<close> and the capture-failed message), a text file with
  the displayed plate and a time stamp is downloaded and a success notification is shown.
\<close>

theorem downloadResult_by_displayed_text:
  "(plateNumber s = [] \<or> has_marker (plateNumber s) \<longrightarrow>
      downloadResult e s
        = showNotification (warning_sign @ '' No valid result to download!'') ''warning'' s
      \<and> downloads (downloadResult e s) = downloads s)
   \<and> (plateNumber s \<noteq> [] \<and> \<not> has_marker (plateNumber s)
       \<and> plateNumber s \<noteq> ''Processing...'' \<and> plateNumber s \<noteq> capture_failed_message \<longrightarrow>
      downloads (downloadResult e s) = downloads s @ [result_file (plateNumber s) e]
      \<and> notifications (downloadResult e s)
          = notifications s @ [(inbox_sign @ '' Result downloaded successfully!'', ''success'')])"
  by (auto simp: downloadResult_def has_marker_def result_file_def showNotification_def Let_def)

theorem downloadResult_by_displayed_text_witness:
  "has_marker (plateNumber sample_page)
   \<and> downloads (downloadResult (sample_env NetworkError) sample_page) = []
   \<and> plateNumber (uploadImage DetectBtn (sample_env (Response True (Some sample_plate))) sample_page)
       = ''TN09AB1234''
   \<and> \<not> has_marker ''TN09AB1234'' \<and> ''TN09AB1234'' \<noteq> ''Processing...''
   \<and> ''TN09AB1234'' \<noteq> capture_failed_message
   \<and> downloads (downloadResult (sample_env NetworkError)
        (uploadImage DetectBtn (sample_env (Response True (Some sample_plate))) sample_page))
       = [result_file ''TN09AB1234'' (sample_env NetworkError)]"
proof -
  let ?s = "uploadImage DetectBtn (sample_env (Response True (Some sample_plate))) sample_page"
  have m: "has_marker (plateNumber sample_page)"
    by (simp add: has_marker_def sample_page_def waiting_message_def)
  have d: "downloads sample_page = []"
    by (simp add: sample_page_def)
  have t: "plateNumber ?s = ''TN09AB1234''" and d': "downloads ?s = []"
    by (simp_all add: uploadImage_def upload_try_def upload_loading_def upload_data_def
        showNotification_def set_button_def addToHistory_def loadDetectionHistory_def Let_def
        sample_env_def sample_page_def sample_plate_def truthy_string_def no_plate_detected_def)
  have n: "\<not> has_marker ''TN09AB1234''" "''TN09AB1234'' \<noteq> ''Processing...''"
    "''TN09AB1234'' \<noteq> capture_failed_message"
    by (simp_all add: has_marker_def capture_failed_message_def)
  show ?thesis
    using downloadResult_by_displayed_text [of sample_page "sample_env NetworkError"]
      downloadResult_by_displayed_text [of ?s "sample_env NetworkError"] m d t d' n
    by (simp add: showNotification_def)
qed

text \<open>
  The four words cover the texts of the upload path (\<open>Detecting...\<close>, the
  processing-error message) but not those of the capture path: while a capture waits for
  its response after an earlier detection, the download button is enabled, the display
  reads \<open>Processing...\<close>, and \<open>downloadResult\<close> writes that text to a file.
\<close>

lemma download_during_capture:
  "plateNumber capturing_page = ''Processing...'' \<and> \<not> detected capturing_page
   \<and> \<not> disabled (buttons capturing_page DownloadBtn)
   \<and> downloads (downloadResult (sample_env NetworkError) capturing_page)
       = [result_file ''Processing...'' (sample_env NetworkError)]"
  by (simp add: capturing_page_def captureFromWebcam_def capture_try_def capture_loading_def
      capture_data_def downloadResult_def result_file_def
      showNotification_def set_button_def addToHistory_def loadDetectionHistory_def Let_def
      sample_env_def sample_page_def sample_plate_def truthy_string_def no_plate_detected_def)

end
